theory Spec2Isabelle
  imports Complex_Main
begin

section \<open>Python values held by the inventory\<close>

text \<open>
  The store \<open>_stock_data\<close> is declared \<open>Dict[str, Dict[str, Any]]\<close>, but
  \<open>load_data\<close> assigns to it whatever \<open>json.load\<close> returns, so the store is
  modelled as an arbitrary JSON-shaped Python value. A \<open>dict\<close> is an association list
  in insertion order, as Python dictionaries iterate in insertion order.

  A finite float is carried by its exact rational value: Python compares a float with an
  \<open>int\<close> exactly, and comparison is all that the program does with a quantity.
\<close>

datatype pyfloat = Finite rat | PosInf | NegInf | NaN

datatype pyval =
    PNone
  | PBool bool
  | PInt int
  | PFloat pyfloat
  | PStr string
  | PList "pyval list"
  | PDict "(string \<times> pyval) list"

text \<open>The exceptions that the program's calls can raise.\<close>

datatype error =
    KeyError
  | TypeError
  | AttributeError
  | OSError
  | JSONDecodeError
  | UnicodeDecodeError
  | ValueError
  | RecursionError

subsection \<open>Dictionary primitives\<close>

fun dict_get :: "(string \<times> pyval) list \<Rightarrow> string \<Rightarrow> pyval option" where
  "dict_get [] k = None"
| "dict_get ((k', v) # kvs) k = (if k' = k then Some v else dict_get kvs k)"

text \<open>\<open>d[k] = v\<close>: an existing key keeps its position, a new key goes last.\<close>

fun dict_set :: "(string \<times> pyval) list \<Rightarrow> string \<Rightarrow> pyval \<Rightarrow> (string \<times> pyval) list" where
  "dict_set [] k v = [(k, v)]"
| "dict_set ((k', v') # kvs) k v =
     (if k' = k then (k, v) # kvs else (k', v') # dict_set kvs k v)"

text \<open>
  \<open>del d[k]\<close> for a key that is present. The keys of a dictionary are unique, so dropping
  every entry under \<open>k\<close> drops the one entry there is.
\<close>

fun dict_del :: "(string \<times> pyval) list \<Rightarrow> string \<Rightarrow> (string \<times> pyval) list" where
  "dict_del [] k = []"
| "dict_del ((k', v') # kvs) k =
     (if k' = k then dict_del kvs k else (k', v') # dict_del kvs k)"

subsection \<open>Operations on arbitrary values\<close>

text \<open>\<open>obj[key] = value\<close> with a \<open>str\<close> key: only a \<open>dict\<close> accepts it.\<close>

fun setitem :: "pyval \<Rightarrow> string \<Rightarrow> pyval \<Rightarrow> error + pyval" where
  "setitem (PDict d) k v = Inr (PDict (dict_set d k v))"
| "setitem _ k v = Inl TypeError"

text \<open>\<open>del obj[key]\<close> with a \<open>str\<close> key.\<close>

fun delitem :: "pyval \<Rightarrow> string \<Rightarrow> error + pyval" where
  "delitem (PDict d) k =
     (case dict_get d k of None \<Rightarrow> Inl KeyError | Some _ \<Rightarrow> Inr (PDict (dict_del d k)))"
| "delitem _ k = Inl TypeError"

text \<open>\<open>obj.get(key, default)\<close>: only a \<open>dict\<close> has the method.\<close>

fun get_method :: "pyval \<Rightarrow> string \<Rightarrow> pyval \<Rightarrow> error + pyval" where
  "get_method (PDict d) k dflt = Inr (case dict_get d k of None \<Rightarrow> dflt | Some v \<Rightarrow> v)"
| "get_method _ k dflt = Inl AttributeError"

text \<open>\<open>obj[key]\<close> with a \<open>str\<close> key.\<close>

fun getitem :: "pyval \<Rightarrow> string \<Rightarrow> error + pyval" where
  "getitem (PDict d) k = (case dict_get d k of None \<Rightarrow> Inl KeyError | Some v \<Rightarrow> Inr v)"
| "getitem _ k = Inl TypeError"

text \<open>\<open>obj.clear()\<close>: dictionaries and lists have the method.\<close>

fun clear_method :: "pyval \<Rightarrow> error + pyval" where
  "clear_method (PDict d) = Inr (PDict [])"
| "clear_method (PList xs) = Inr (PList [])"
| "clear_method _ = Inl AttributeError"

text \<open>\<open>obj.items()\<close>.\<close>

fun items_method :: "pyval \<Rightarrow> error + (string \<times> pyval) list" where
  "items_method (PDict d) = Inr d"
| "items_method _ = Inl AttributeError"

text \<open>Truth value of an object, as \<open>if not obj\<close> tests it.\<close>

fun truthy :: "pyval \<Rightarrow> bool" where
  "truthy PNone = False"
| "truthy (PBool b) = b"
| "truthy (PInt i) = (i \<noteq> 0)"
| "truthy (PFloat (Finite r)) = (r \<noteq> 0)"
| "truthy (PFloat _) = True"
| "truthy (PStr s) = (s \<noteq> [])"
| "truthy (PList xs) = (xs \<noteq> [])"
| "truthy (PDict d) = (d \<noteq> [])"

fun float_lt_int :: "pyfloat \<Rightarrow> int \<Rightarrow> bool" where
  "float_lt_int (Finite r) t = (r < of_int t)"
| "float_lt_int PosInf t = False"
| "float_lt_int NegInf t = True"
| "float_lt_int NaN t = False"

text \<open>\<open>v < t\<close> for an \<open>int\<close> \<open>t\<close>: numbers compare, anything else raises.\<close>

fun lt_int :: "pyval \<Rightarrow> int \<Rightarrow> error + bool" where
  "lt_int (PInt a) t = Inr (a < t)"
| "lt_int (PBool b) t = Inr ((if b then 1 else 0) < t)"
| "lt_int (PFloat f) t = Inr (float_lt_int f t)"
| "lt_int _ t = Inl TypeError"

text \<open>\<open>sep.join(xs)\<close> on a list of strings.\<close>

fun join :: "string \<Rightarrow> string list \<Rightarrow> string" where
  "join sep [] = []"
| "join sep [x] = x"
| "join sep (x # y # ys) = x @ sep @ join sep (y # ys)"

section \<open>The manager and its logger\<close>

datatype level = INFO | WARNING | ERROR

text \<open>
  A log call hands the logger a level, a format string and the arguments; formatting is
  the logging library's business.
\<close>

datatype logarg = Val pyval | Exc error

type_synonym log_record = "level \<times> string \<times> logarg list"

record manager =
  stock_data :: pyval
  logger :: "log_record list"

definition emit :: "level \<Rightarrow> string \<Rightarrow> logarg list \<Rightarrow> manager \<Rightarrow> manager" where
  "emit lvl msg args m = m\<lparr>logger := logger m @ [(lvl, msg, args)]\<rparr>"

definition init :: manager where
  "init = \<lparr>stock_data = PDict [], logger = []\<rparr>"

text \<open>
  Every method takes the manager and returns what the call produced (\<open>Inl\<close> an exception
  that reaches the caller) together with the manager as the call left it.
\<close>

type_synonym 'a call = "manager \<Rightarrow> (error + 'a) \<times> manager"

subsection \<open>\<open>add_item\<close>\<close>

definition add_item :: "string \<Rightarrow> string list option \<Rightarrow> int \<Rightarrow> unit call" where
  "add_item item_name tags quantity m =
     (let tags' = (case tags of None \<Rightarrow> [] | Some ts \<Rightarrow> if ts = [] then [] else ts) in
      if quantity < 0 then
        (Inr (), emit ERROR ''Quantity must be non-negative for item: %s'' [Val (PStr item_name)] m)
      else
        (case setitem (stock_data m) item_name
                (PDict [(''quantity'', PInt quantity), (''tags'', PList (map PStr tags'))]) of
           Inl e \<Rightarrow> (Inl e, m)
         | Inr s \<Rightarrow>
             (Inr (), emit INFO ''Added item '%s' | Quantity: %d | Tags: %s''
                        [Val (PStr item_name), Val (PInt quantity), Val (PList (map PStr tags'))]
                        (m\<lparr>stock_data := s\<rparr>))))"

subsection \<open>\<open>remove_item\<close>\<close>

definition remove_item :: "string \<Rightarrow> unit call" where
  "remove_item item_name m =
     (case delitem (stock_data m) item_name of
        Inr s \<Rightarrow> (Inr (), emit INFO ''Removed item: %s'' [Val (PStr item_name)] (m\<lparr>stock_data := s\<rparr>))
      | Inl KeyError \<Rightarrow>
          (Inr (), emit WARNING ''Attempted to remove non-existent item: %s'' [Val (PStr item_name)] m)
      | Inl e \<Rightarrow> (Inl e, m))"

subsection \<open>\<open>get_quantity\<close>\<close>

definition get_quantity :: "string \<Rightarrow> pyval call" where
  "get_quantity item_name m =
     (case get_method (stock_data m) item_name (PDict []) of
        Inl e \<Rightarrow> (Inl e, m)
      | Inr details \<Rightarrow>
          (case get_method details ''quantity'' (PInt 0) of
             Inl e \<Rightarrow> (Inl e, m)
           | Inr q \<Rightarrow> (Inr q, m)))"

subsection \<open>\<open>load_data\<close> and \<open>save_data\<close>\<close>

text \<open>
  What the bytes of a file are to \<open>json.load\<close>: not UTF-8 (reading them raises
  \<open>UnicodeDecodeError\<close>, a \<open>ValueError\<close>), text that is not JSON
  (\<open>json.JSONDecodeError\<close>), or the JSON document of a value. A file is recorded by the
  value its text denotes: the text that \<open>json.dump\<close> writes for a value is the document
  of that value.
\<close>

datatype stored_file = Undecodable | Malformed | Document pyval

text \<open>
  How writing to a path fails: \<open>open\<close> raises \<open>OSError\<close> and the path stays as it was,
  or the file is opened, which truncates it, and the write or the close raises
  \<open>OSError\<close>.
\<close>

datatype fault = OpenFails | WriteFails

text \<open>
  The host of a run. Its files: those that exist, the paths that cannot be opened for
  reading, the paths at which writing fails. Its interpreter's limits: the digit limit of
  the conversion between \<open>int\<close> and \<open>str\<close> (\<open>sys.get_int_max_str_digits()\<close>: 4300
  unless reconfigured, 0 for no limit), and the number of nested containers that the JSON
  encoder and the JSON decoder can recurse through before the interpreter raises
  \<open>RecursionError\<close>.
\<close>

record host =
  content :: "string \<Rightarrow> stored_file option"
  unreadable :: "string set"
  write_fault :: "string \<Rightarrow> fault option"
  max_str_digits :: nat
  encoder_depth :: nat
  decoder_depth :: nat

text \<open>
  An integer of more than \<open>digits\<close> decimal digits: converting it to text, or reading it
  from text, raises \<open>ValueError\<close>.
\<close>

definition too_long :: "nat \<Rightarrow> int \<Rightarrow> bool" where
  "too_long digits i = (digits \<noteq> 0 \<and> 10 ^ digits \<le> \<bar>i\<bar>)"

text \<open>
  The codec walks a value in document order. The first integer over the digit limit ends
  the walk with \<open>ValueError\<close>; the first container nested deeper than the interpreter can
  recurse ends it with \<open>RecursionError\<close>.
\<close>

fun codec_limit :: "nat \<Rightarrow> nat \<Rightarrow> pyval \<Rightarrow> error option"
  and codec_limit_list :: "nat \<Rightarrow> nat \<Rightarrow> pyval list \<Rightarrow> error option"
  and codec_limit_items :: "nat \<Rightarrow> nat \<Rightarrow> (string \<times> pyval) list \<Rightarrow> error option" where
  "codec_limit digits depth (PInt i) = (if too_long digits i then Some ValueError else None)"
| "codec_limit digits depth (PList xs) =
     (if depth = 0 then Some RecursionError else codec_limit_list digits (depth - 1) xs)"
| "codec_limit digits depth (PDict kvs) =
     (if depth = 0 then Some RecursionError else codec_limit_items digits (depth - 1) kvs)"
| "codec_limit digits depth PNone = None"
| "codec_limit digits depth (PBool b) = None"
| "codec_limit digits depth (PFloat f) = None"
| "codec_limit digits depth (PStr s) = None"
| "codec_limit_list digits depth [] = None"
| "codec_limit_list digits depth (x # xs) =
     (case codec_limit digits depth x of
        Some e \<Rightarrow> Some e
      | None \<Rightarrow> codec_limit_list digits depth xs)"
| "codec_limit_items digits depth [] = None"
| "codec_limit_items digits depth ((k, v) # kvs) =
     (case codec_limit digits depth v of
        Some e \<Rightarrow> Some e
      | None \<Rightarrow> codec_limit_items digits depth kvs)"

text \<open>
  \<open>json.dump(obj, file, indent=4)\<close> on a file that has been opened: the document
  written, or the exception that the encoder raises on the way, which leaves the file
  with the beginning of a document only.
\<close>

definition json_dump :: "host \<Rightarrow> pyval \<Rightarrow> error + stored_file" where
  "json_dump fs obj =
     (case codec_limit (max_str_digits fs) (encoder_depth fs) obj of
        Some e \<Rightarrow> Inl e
      | None \<Rightarrow> Inr (Document obj))"

text \<open>\<open>json.load(file)\<close> on a file that has been opened.\<close>

fun json_load :: "host \<Rightarrow> stored_file \<Rightarrow> error + pyval" where
  "json_load fs Undecodable = Inl UnicodeDecodeError"
| "json_load fs Malformed = Inl JSONDecodeError"
| "json_load fs (Document v) =
     (case codec_limit (max_str_digits fs) (decoder_depth fs) v of
        Some e \<Rightarrow> Inl e
      | None \<Rightarrow> Inr v)"

text \<open>\<open>self._stock_data.clear()\<close>\<close>

definition clear_stock :: "unit call" where
  "clear_stock m =
     (case clear_method (stock_data m) of
        Inl e \<Rightarrow> (Inl e, m)
      | Inr s \<Rightarrow> (Inr (), m\<lparr>stock_data := s\<rparr>))"

text \<open>
  \<open>load_data\<close> handles \<open>json.JSONDecodeError\<close> and \<open>OSError\<close>; any other exception
  of the read reaches the caller, with the store as it was.
\<close>

definition load_data :: "string \<Rightarrow> host \<Rightarrow> unit call" where
  "load_data filename fs m =
     (case content fs filename of
        None \<Rightarrow>
          clear_stock (emit WARNING ''File not found: %s. Starting with empty inventory.''
                         [Val (PStr filename)] m)
      | Some f \<Rightarrow>
          (case (if filename \<in> unreadable fs then Inl OSError else json_load fs f) of
             Inr v \<Rightarrow>
               (Inr (), emit INFO ''Data loaded successfully from %s'' [Val (PStr filename)]
                          (m\<lparr>stock_data := v\<rparr>))
           | Inl JSONDecodeError \<Rightarrow>
               clear_stock (emit ERROR ''Invalid JSON in %s: %s. Starting empty.''
                              [Val (PStr filename), Exc JSONDecodeError] m)
           | Inl OSError \<Rightarrow>
               clear_stock (emit ERROR ''Error reading %s: %s''
                              [Val (PStr filename), Exc OSError] m)
           | Inl e \<Rightarrow> (Inl e, m)))"

text \<open>
  \<open>save_data\<close> handles \<open>OSError\<close> only. An exception of the encoder reaches the
  caller, after \<open>open\<close> has truncated the file and before the success is logged.
\<close>

definition save_data :: "string \<Rightarrow> host \<Rightarrow> manager \<Rightarrow> ((error + unit) \<times> manager) \<times> host" where
  "save_data filename fs m =
     (case write_fault fs filename of
        Some OpenFails \<Rightarrow>
          ((Inr (), emit ERROR ''Failed to save data: %s'' [Exc OSError] m), fs)
      | Some WriteFails \<Rightarrow>
          ((Inr (), emit ERROR ''Failed to save data: %s'' [Exc OSError] m),
           fs\<lparr>content := (content fs)(filename \<mapsto> Malformed)\<rparr>)
      | None \<Rightarrow>
          (case json_dump fs (stock_data m) of
             Inl e \<Rightarrow> ((Inl e, m), fs\<lparr>content := (content fs)(filename \<mapsto> Malformed)\<rparr>)
           | Inr f \<Rightarrow>
               ((Inr (), emit INFO ''Data saved successfully to %s'' [Val (PStr filename)] m),
                fs\<lparr>content := (content fs)(filename \<mapsto> f)\<rparr>)))"

subsection \<open>\<open>print_data\<close>\<close>

fun print_items :: "(string \<times> pyval) list \<Rightarrow> unit call" where
  "print_items [] m = (Inr (), m)"
| "print_items ((name, details) # rest) m =
     (case getitem details ''quantity'' of
        Inl e \<Rightarrow> (Inl e, m)
      | Inr q \<Rightarrow>
          (case getitem details ''tags'' of
             Inl e \<Rightarrow> (Inl e, m)
           | Inr ts \<Rightarrow>
               print_items rest
                 (emit INFO ''%s: %d units | Tags: %s'' [Val (PStr name), Val q, Val ts] m)))"

definition print_data :: "unit call" where
  "print_data m =
     (if \<not> truthy (stock_data m) then (Inr (), emit INFO ''Inventory is empty.'' [] m)
      else
        (case items_method (stock_data m) of
           Inl e \<Rightarrow> (Inl e, emit INFO ''Inventory contents:'' [] m)
         | Inr its \<Rightarrow> print_items its (emit INFO ''Inventory contents:'' [] m)))"

subsection \<open>\<open>check_low_items\<close>\<close>

text \<open>The comprehension, left to right; the first record that raises ends it.\<close>

fun low_names :: "(string \<times> pyval) list \<Rightarrow> int \<Rightarrow> error + string list" where
  "low_names [] threshold = Inr []"
| "low_names ((name, details) # rest) threshold =
     (case get_method details ''quantity'' (PInt 0) of
        Inl e \<Rightarrow> Inl e
      | Inr q \<Rightarrow>
          (case lt_int q threshold of
             Inl e \<Rightarrow> Inl e
           | Inr b \<Rightarrow>
               (case low_names rest threshold of
                  Inl e \<Rightarrow> Inl e
                | Inr names \<Rightarrow> Inr (if b then name # names else names))))"

definition check_low_items :: "int \<Rightarrow> string list call" where
  "check_low_items threshold m =
     (case items_method (stock_data m) of
        Inl e \<Rightarrow> (Inl e, m)
      | Inr its \<Rightarrow>
          (case low_names its threshold of
             Inl e \<Rightarrow> (Inl e, m)
           | Inr low_items \<Rightarrow>
               (Inr low_items,
                if low_items \<noteq> [] then
                  emit WARNING ''Low stock items: %s'' [Val (PStr (join '', '' low_items))] m
                else emit INFO ''All items are sufficiently stocked.'' [] m)))"

section \<open>Sequences of calls\<close>

datatype op =
    Add string "string list option" int
  | Remove string
  | Load string
  | Save string
  | CheckLow int
  | Report

record system =
  mgr :: manager
  disk :: host

text \<open>
  One call on the manager. A call that raises leaves the manager as it was at the raise,
  and the caller goes on with it.
\<close>

fun step :: "op \<Rightarrow> system \<Rightarrow> system" where
  "step (Add n tags q) s = s\<lparr>mgr := snd (add_item n tags q (mgr s))\<rparr>"
| "step (Remove n) s = s\<lparr>mgr := snd (remove_item n (mgr s))\<rparr>"
| "step (Load p) s = s\<lparr>mgr := snd (load_data p (disk s) (mgr s))\<rparr>"
| "step (Save p) s =
     \<lparr>mgr = snd (fst (save_data p (disk s) (mgr s))), disk = snd (save_data p (disk s) (mgr s))\<rparr>"
| "step (CheckLow t) s = s\<lparr>mgr := snd (check_low_items t (mgr s))\<rparr>"
| "step Report s = s\<lparr>mgr := snd (print_data (mgr s))\<rparr>"

definition exec :: "op list \<Rightarrow> system \<Rightarrow> system" where
  "exec ops s = fold step ops s"

section \<open>Predicates on stores\<close>

text \<open>The quantity of a record, when the record has an integer one.\<close>

fun stored_quantity :: "pyval \<Rightarrow> int option" where
  "stored_quantity (PDict flds) =
     (case dict_get flds ''quantity'' of Some (PInt q) \<Rightarrow> Some q | _ \<Rightarrow> None)"
| "stored_quantity _ = None"

text \<open>A record (a dictionary) whose quantity, if it has one, is a number.\<close>

fun numeric_quantity :: "pyval \<Rightarrow> bool" where
  "numeric_quantity (PDict flds) =
     (case dict_get flds ''quantity'' of
        None \<Rightarrow> True
      | Some (PInt _) \<Rightarrow> True
      | Some (PBool _) \<Rightarrow> True
      | Some (PFloat _) \<Rightarrow> True
      | Some _ \<Rightarrow> False)"
| "numeric_quantity _ = False"

text \<open>A record whose quantity is below zero, by Python's own comparison.\<close>

fun negative_quantity :: "pyval \<Rightarrow> bool" where
  "negative_quantity (PDict flds) =
     (case dict_get flds ''quantity'' of None \<Rightarrow> False | Some q \<Rightarrow> lt_int q 0 = Inr True)"
| "negative_quantity _ = False"

fun no_negative :: "pyval \<Rightarrow> bool" where
  "no_negative (PDict d) = list_all (\<lambda>(k, r). \<not> negative_quantity r) d"
| "no_negative _ = True"

section \<open>Concrete stores and hosts\<close>

text \<open>The store that \<open>main\<close> builds: Pen with 15 units, Notebook with 7.\<close>

definition pen_notebook :: manager where
  "pen_notebook =
     snd (add_item ''Notebook'' (Some [''stationery'']) 7
       (snd (add_item ''Pen'' (Some [''stationery'']) 15 init)))"

text \<open>
  A host with no file, where every path can be written and read, and whose interpreter
  has the default digit limit and lets the codec recurse through 900 containers.
\<close>

definition empty_disk :: host where
  "empty_disk =
     \<lparr>content = Map.empty, unreadable = {}, write_fault = Map.empty,
      max_str_digits = 4300, encoder_depth = 900, decoder_depth = 900\<rparr>"

text \<open>No file at \<open>stock.json\<close>, and the path cannot be opened for writing.\<close>

definition locked_disk :: host where
  "locked_disk = empty_disk\<lparr>write_fault := [''stock.json'' \<mapsto> OpenFails]\<rparr>"

text \<open>A \<open>stock.json\<close> whose bytes are not UTF-8.\<close>

definition undecodable_disk :: host where
  "undecodable_disk = empty_disk\<lparr>content := [''stock.json'' \<mapsto> Undecodable]\<rparr>"

text \<open>A \<open>stock.json\<close> holding \<open>{"Pen": {"quantity": -1, "tags": []}}\<close>.\<close>

definition negative_disk :: host where
  "negative_disk =
     empty_disk\<lparr>content := [''stock.json'' \<mapsto>
        Document (PDict [(''Pen'', PDict [(''quantity'', PInt (- 1)), (''tags'', PList [])])])]\<rparr>"

text \<open>
  The least integer of 4301 digits, and the store after
  \<open>add_item("Big", None, 10 ** 4300)\<close> on a fresh manager.
\<close>

definition long_integer :: int where
  "long_integer = 10 ^ 4300"

definition long_integer_store :: manager where
  "long_integer_store = snd (add_item ''Big'' None long_integer init)"

text \<open>A store with a record that has lost its quantity: \<open>{"Pen": {"tags": []}}\<close>.\<close>

definition no_quantity_store :: manager where
  "no_quantity_store = \<lparr>stock_data = PDict [(''Pen'', PDict [(''tags'', PList [])])], logger = []\<rparr>"

text \<open>The calls of \<open>main\<close>, in order, and one more \<open>load_data\<close> after them.\<close>

definition main_ops :: "op list" where
  "main_ops =
     [Load ''stock.json'',
      Add ''Pen'' (Some [''stationery'']) 15,
      Add ''Notebook'' (Some [''stationery'']) 7,
      Remove ''Pencil'',
      Report,
      CheckLow 8,
      Save ''stock.json'',
      Load ''stock.json'']"

definition start :: system where
  "start = \<lparr>mgr = init, disk = empty_disk\<rparr>"

section \<open>Facts about the dictionary primitives\<close>

lemma dict_get_set_same: "dict_get (dict_set d k v) k = Some v"
  by (induction d) auto

lemma dict_get_set_other: "k' \<noteq> k \<Longrightarrow> dict_get (dict_set d k v) k' = dict_get d k'"
  by (induction d) auto

lemma dict_get_del_same: "dict_get (dict_del d k) k = None"
  by (induction d) auto

lemma keys_dict_set_present: "dict_get d k = Some old \<Longrightarrow> map fst (dict_set d k v) = map fst d"
  by (induction d) (auto split: if_splits)

lemma list_all_dict_set: "list_all P d \<Longrightarrow> P (k, v) \<Longrightarrow> list_all P (dict_set d k v)"
  by (induction d) auto

lemma list_all_dict_del: "list_all P d \<Longrightarrow> list_all P (dict_del d k)"
  by (induction d) auto

lemma pen_notebook_store:
  "pen_notebook =
     \<lparr>stock_data = PDict
        [(''Pen'', PDict [(''quantity'', PInt 15), (''tags'', PList [PStr ''stationery''])]),
         (''Notebook'', PDict [(''quantity'', PInt 7), (''tags'', PList [PStr ''stationery''])])],
      logger =
        [(INFO, ''Added item '%s' | Quantity: %d | Tags: %s'',
           [Val (PStr ''Pen''), Val (PInt 15), Val (PList [PStr ''stationery''])]),
         (INFO, ''Added item '%s' | Quantity: %d | Tags: %s'',
           [Val (PStr ''Notebook''), Val (PInt 7), Val (PList [PStr ''stationery''])])]\<rparr>"
  by (simp add: pen_notebook_def add_item_def init_def emit_def Let_def)

section \<open>\<open>add_item\<close> and \<open>get_quantity\<close>\<close>

text \<open>
  C3: on a store that is a dictionary, for every non-negative integer \<open>q\<close>, every name
  \<open>n\<close> and every tags argument, \<open>add_item n tags q\<close> returns normally and
  \<open>get_quantity n\<close> then returns \<open>q\<close>.
\<close>

theorem add_then_get_quantity:
  assumes "0 \<le> q" and "stock_data m = PDict d"
  shows "fst (add_item n tags q m) = Inr () \<and>
         fst (get_quantity n (snd (add_item n tags q m))) = Inr (PInt q)"
  using assms
  by (simp add: add_item_def get_quantity_def emit_def Let_def dict_get_set_same)

theorem add_then_get_quantity_witness:
  "(0::int) \<le> 15 \<and> stock_data init = PDict [] \<and>
   fst (add_item ''Pen'' (Some [''stationery'']) 15 init) = Inr () \<and>
   fst (get_quantity ''Pen'' (snd (add_item ''Pen'' (Some [''stationery'']) 15 init))) = Inr (PInt 15)"
  using add_then_get_quantity [of 15 init "[]" "''Pen''" "Some [''stationery'']"]
  by (simp add: init_def)

text \<open>
  C4: for every name and every negative quantity, \<open>add_item\<close> returns normally (nothing
  is raised), leaves the store as it was, so that \<open>get_quantity\<close> of any name answers as
  before the call, and reports the failure as one error record on the logger.
\<close>

theorem add_item_negative_rejected:
  assumes "q < 0"
  shows "fst (add_item n tags q m) = Inr () \<and>
         stock_data (snd (add_item n tags q m)) = stock_data m \<and>
         logger (snd (add_item n tags q m)) =
           logger m @ [(ERROR, ''Quantity must be non-negative for item: %s'', [Val (PStr n)])] \<and>
         fst (get_quantity k (snd (add_item n tags q m))) = fst (get_quantity k m)"
  using assms by (simp add: add_item_def emit_def get_quantity_def Let_def split: sum.splits)

theorem add_item_negative_rejected_witness:
  "(- 1 :: int) < 0 \<and>
   fst (add_item ''Pen'' None (- 1) pen_notebook) = Inr () \<and>
   stock_data (snd (add_item ''Pen'' None (- 1) pen_notebook)) = stock_data pen_notebook \<and>
   fst (get_quantity ''Pen'' (snd (add_item ''Pen'' None (- 1) pen_notebook))) = Inr (PInt 15)"
  using add_item_negative_rejected [of "- 1" "''Pen''" None pen_notebook "''Pen''"]
  by (simp add: pen_notebook_store get_quantity_def)

text \<open>
  C9: on a store that is a dictionary and already has the name \<open>n\<close>, \<open>add_item\<close> with a
  non-negative quantity leaves under \<open>n\<close> exactly the record made of the new quantity and
  the new tags, whatever the old record was; every other name keeps its record, and the
  keys and their order stay as they were.
\<close>

theorem add_item_overwrites:
  assumes "0 \<le> q" and "stock_data m = PDict d" and "dict_get d n = Some old"
  shows "\<exists>d'. stock_data (snd (add_item n tags q m)) = PDict d' \<and>
           dict_get d' n =
             Some (PDict [(''quantity'', PInt q),
                          (''tags'', PList (map PStr (case tags of None \<Rightarrow> [] | Some ts \<Rightarrow> ts)))]) \<and>
           (\<forall>k. k \<noteq> n \<longrightarrow> dict_get d' k = dict_get d k) \<and>
           map fst d' = map fst d"
  using assms
  by (auto simp: add_item_def emit_def Let_def dict_get_set_same dict_get_set_other
        keys_dict_set_present split: option.splits)

theorem add_item_overwrites_witness:
  "(0::int) \<le> 3 \<and> dict_get [(''Pen'', PDict [(''quantity'', PInt 15), (''tags'', PList [PStr ''stationery''])]),
         (''Notebook'', PDict [(''quantity'', PInt 7), (''tags'', PList [PStr ''stationery''])])] ''Pen'' \<noteq> None \<and>
   stock_data (snd (add_item ''Pen'' (Some [''blue'']) 3 pen_notebook)) =
     PDict [(''Pen'', PDict [(''quantity'', PInt 3), (''tags'', PList [PStr ''blue''])]),
            (''Notebook'', PDict [(''quantity'', PInt 7), (''tags'', PList [PStr ''stationery''])])]"
  using add_item_overwrites [of 3 pen_notebook
      "[(''Pen'', PDict [(''quantity'', PInt 15), (''tags'', PList [PStr ''stationery''])]),
        (''Notebook'', PDict [(''quantity'', PInt 7), (''tags'', PList [PStr ''stationery''])])]"
      "''Pen''" "PDict [(''quantity'', PInt 15), (''tags'', PList [PStr ''stationery''])]"
      "Some [''blue'']"]
  by (simp add: pen_notebook_store add_item_def emit_def Let_def)

section \<open>\<open>remove_item\<close> and \<open>get_quantity\<close>\<close>

text \<open>
  C7: on a store that is a dictionary, for every name \<open>n\<close>, present or absent,
  \<open>remove_item n\<close> returns normally and \<open>get_quantity n\<close> then returns 0; when \<open>n\<close> is
  absent the store is left as it was and one warning record goes to the logger.
\<close>

theorem remove_then_get_quantity:
  assumes "stock_data m = PDict d"
  shows "fst (remove_item n m) = Inr () \<and>
         fst (get_quantity n (snd (remove_item n m))) = Inr (PInt 0) \<and>
         (dict_get d n = None \<longrightarrow>
            stock_data (snd (remove_item n m)) = stock_data m \<and>
            logger (snd (remove_item n m)) =
              logger m @ [(WARNING, ''Attempted to remove non-existent item: %s'', [Val (PStr n)])])"
  using assms
  by (cases "dict_get d n")
     (simp_all add: remove_item_def get_quantity_def emit_def dict_get_del_same)

theorem remove_then_get_quantity_witness:
  "fst (remove_item ''Pencil'' pen_notebook) = Inr () \<and>
   fst (get_quantity ''Pencil'' (snd (remove_item ''Pencil'' pen_notebook))) = Inr (PInt 0) \<and>
   stock_data (snd (remove_item ''Pencil'' pen_notebook)) = stock_data pen_notebook \<and>
   fst (get_quantity ''Pen'' (snd (remove_item ''Pen'' pen_notebook))) = Inr (PInt 0)"
  using remove_then_get_quantity [of pen_notebook
      "[(''Pen'', PDict [(''quantity'', PInt 15), (''tags'', PList [PStr ''stationery''])]),
        (''Notebook'', PDict [(''quantity'', PInt 7), (''tags'', PList [PStr ''stationery''])])]"
      "''Pencil''"]
    remove_then_get_quantity [of pen_notebook
      "[(''Pen'', PDict [(''quantity'', PInt 15), (''tags'', PList [PStr ''stationery''])]),
        (''Notebook'', PDict [(''quantity'', PInt 7), (''tags'', PList [PStr ''stationery''])])]"
      "''Pen''"]
  by (simp add: pen_notebook_store)

text \<open>
  C8: on a store that is a dictionary whose entry for \<open>n\<close>, if there is one, is a record
  (a dictionary), \<open>get_quantity n\<close> returns 0 when \<open>n\<close> is absent and the quantity stored
  in the record when \<open>n\<close> is present; it always returns a value, and it leaves the
  manager as it was.
\<close>

theorem get_quantity_total:
  assumes "stock_data m = PDict d"
    and "\<forall>r. dict_get d n = Some r \<longrightarrow> (\<exists>flds. r = PDict flds)"
  shows "(dict_get d n = None \<longrightarrow> get_quantity n m = (Inr (PInt 0), m)) \<and>
         (\<forall>flds q. dict_get d n = Some (PDict flds) \<and> dict_get flds ''quantity'' = Some q \<longrightarrow>
            get_quantity n m = (Inr q, m)) \<and>
         (\<exists>v. get_quantity n m = (Inr v, m))"
  using assms
  by (cases "dict_get d n") (auto simp: get_quantity_def)

theorem get_quantity_total_witness:
  "get_quantity ''Pencil'' pen_notebook = (Inr (PInt 0), pen_notebook) \<and>
   get_quantity ''Notebook'' pen_notebook = (Inr (PInt 7), pen_notebook)"
  using get_quantity_total [of pen_notebook
      "[(''Pen'', PDict [(''quantity'', PInt 15), (''tags'', PList [PStr ''stationery''])]),
        (''Notebook'', PDict [(''quantity'', PInt 7), (''tags'', PList [PStr ''stationery''])])]"
      "''Pencil''"]
    get_quantity_total [of pen_notebook
      "[(''Pen'', PDict [(''quantity'', PInt 15), (''tags'', PList [PStr ''stationery''])]),
        (''Notebook'', PDict [(''quantity'', PInt 7), (''tags'', PList [PStr ''stationery''])])]"
      "''Notebook''"]
  by (simp add: pen_notebook_store)

text \<open>
  The hypothesis on the entry is needed: an entry that is not a dictionary has no
  \<open>get\<close> method.
\<close>

lemma get_quantity_non_record:
  assumes "stock_data m = PDict d" and "dict_get d n = Some (PInt q)"
  shows "get_quantity n m = (Inl AttributeError, m)"
  using assms by (simp add: get_quantity_def)

section \<open>\<open>check_low_items\<close>\<close>

lemma stored_quantity_get:
  "stored_quantity r = Some q \<Longrightarrow> get_method r ''quantity'' (PInt 0) = Inr (PInt q)"
  by (cases r) (auto split: option.splits pyval.splits)

lemma low_names_exact:
  "\<forall>(k, r) \<in> set d. stored_quantity r \<noteq> None \<Longrightarrow>
   low_names d t =
     Inr (map fst (filter (\<lambda>(k, r). case stored_quantity r of Some q \<Rightarrow> q < t | None \<Rightarrow> False) d))"
proof (induction d)
  case Nil
  then show ?case by simp
next
  case (Cons kr d)
  obtain k r where kr: "kr = (k, r)" by (cases kr)
  from Cons.prems kr obtain q where q: "stored_quantity r = Some q" by auto
  from Cons.prems have "\<forall>(k, r) \<in> set d. stored_quantity r \<noteq> None" by simp
  then have IH: "low_names d t =
     Inr (map fst (filter (\<lambda>(k, r). case stored_quantity r of Some q \<Rightarrow> q < t | None \<Rightarrow> False) d))"
    by (rule Cons.IH)
  show ?case
    by (simp add: kr q IH stored_quantity_get [OF q])
qed

lemma check_low_items_store: "stock_data (snd (check_low_items t m)) = stock_data m"
  by (simp add: check_low_items_def emit_def split: sum.splits)

text \<open>
  C6: on a store that is a dictionary of records with integer quantities,
  \<open>check_low_items threshold\<close> returns, in the store's order, exactly the names whose
  stored quantity is strictly less than the threshold, and leaves the store as it was.
  On the store with Pen at 15 and Notebook at 7, the threshold 8 gives exactly Notebook.
\<close>

theorem check_low_items_exact:
  assumes "stock_data m = PDict d"
    and "\<forall>(k, r) \<in> set d. stored_quantity r \<noteq> None"
  shows "fst (check_low_items t m) =
           Inr (map fst (filter (\<lambda>(k, r). case stored_quantity r of Some q \<Rightarrow> q < t | None \<Rightarrow> False) d)) \<and>
         stock_data (snd (check_low_items t m)) = stock_data m \<and>
         fst (check_low_items 8 pen_notebook) = Inr [''Notebook'']"
proof -
  have "fst (check_low_items t m) =
           Inr (map fst (filter (\<lambda>(k, r). case stored_quantity r of Some q \<Rightarrow> q < t | None \<Rightarrow> False) d))"
    using assms(1) low_names_exact [OF assms(2), of t]
    by (simp add: check_low_items_def)
  moreover have "fst (check_low_items 8 pen_notebook) = Inr [''Notebook'']"
    by (simp add: check_low_items_def pen_notebook_store)
  ultimately show ?thesis
    by (simp add: check_low_items_store)
qed

theorem check_low_items_exact_witness:
  "fst (check_low_items 10 (snd (add_item ''Ink'' None 9 pen_notebook))) = Inr [''Notebook'', ''Ink''] \<and>
   stock_data (snd (check_low_items 10 (snd (add_item ''Ink'' None 9 pen_notebook)))) =
     stock_data (snd (add_item ''Ink'' None 9 pen_notebook))"
  using check_low_items_exact [of "snd (add_item ''Ink'' None 9 pen_notebook)"
      "[(''Pen'', PDict [(''quantity'', PInt 15), (''tags'', PList [PStr ''stationery''])]),
        (''Notebook'', PDict [(''quantity'', PInt 7), (''tags'', PList [PStr ''stationery''])]),
        (''Ink'', PDict [(''quantity'', PInt 9), (''tags'', PList [])])]" 10]
  by (simp add: pen_notebook_store add_item_def emit_def Let_def)

lemma low_names_member:
  "low_names d t = Inr names \<Longrightarrow> dict_get d n = Some r \<Longrightarrow>
   get_method r ''quantity'' (PInt 0) = Inr q \<Longrightarrow> lt_int q t = Inr True \<Longrightarrow> n \<in> set names"
proof (induction d arbitrary: names)
  case Nil
  then show ?case by simp
next
  case (Cons kr d)
  obtain k r' where kr: "kr = (k, r')" by (cases kr)
  from Cons.prems(1) kr obtain q' b rest where
    q': "get_method r' ''quantity'' (PInt 0) = Inr q'" and b: "lt_int q' t = Inr b"
    and rest: "low_names d t = Inr rest" and names: "names = (if b then k # rest else rest)"
    by (auto split: sum.splits)
  show ?case
  proof (cases "k = n")
    case True
    with Cons.prems(2) kr have "r' = r" by simp
    with q' b Cons.prems(3,4) have "b" by simp
    with names True show ?thesis by simp
  next
    case False
    with Cons.prems(2) kr have "dict_get d n = Some r" by simp
    from Cons.IH [OF rest this Cons.prems(3,4)] names show ?thesis by simp
  qed
qed

lemma numeric_quantity_compares:
  "numeric_quantity r \<Longrightarrow> \<exists>q b. get_method r ''quantity'' (PInt 0) = Inr q \<and> lt_int q t = Inr b"
  by (cases r) (auto split: option.splits pyval.splits)

lemma low_names_returns:
  "\<forall>(k, r) \<in> set d. numeric_quantity r \<Longrightarrow> \<exists>names. low_names d t = Inr names"
proof (induction d)
  case Nil
  then show ?case by simp
next
  case (Cons kr d)
  obtain k r where kr: "kr = (k, r)" by (cases kr)
  from Cons.prems kr have "numeric_quantity r" by simp
  from numeric_quantity_compares [OF this, of t] obtain q b where
    "get_method r ''quantity'' (PInt 0) = Inr q" "lt_int q t = Inr b" by blast
  moreover from Cons have "\<exists>names. low_names d t = Inr names" by simp
  ultimately show ?case using kr by auto
qed

lemma low_names_member_low:
  "low_names d t = Inr names \<Longrightarrow> n \<in> set names \<Longrightarrow>
   \<exists>r q. (n, r) \<in> set d \<and> get_method r ''quantity'' (PInt 0) = Inr q \<and> lt_int q t = Inr True"
proof (induction d arbitrary: names)
  case Nil
  then show ?case by simp
next
  case (Cons kr d)
  obtain k r' where kr: "kr = (k, r')" by (cases kr)
  from Cons.prems(1) kr obtain q' b rest where
    q': "get_method r' ''quantity'' (PInt 0) = Inr q'" and b: "lt_int q' t = Inr b"
    and rest: "low_names d t = Inr rest" and names: "names = (if b then k # rest else rest)"
    by (auto split: sum.splits)
  show ?case
  proof (cases "n \<in> set rest")
    case True
    from Cons.IH [OF rest True] kr show ?thesis by auto
  next
    case False
    with Cons.prems(2) names have "b" and "k = n" by (auto split: if_splits)
    with q' b kr show ?thesis by auto
  qed
qed

lemma dict_get_distinct:
  "distinct (map fst d) \<Longrightarrow> (n, r) \<in> set d \<Longrightarrow> dict_get d n = Some r"
  by (induction d) (auto simp: image_iff)

lemma low_names_same_quantity:
  "dict_get d n = Some r \<Longrightarrow>
   get_method r' ''quantity'' (PInt 0) = get_method r ''quantity'' (PInt 0) \<Longrightarrow>
   low_names (dict_set d n r') t = low_names d t"
proof (induction d)
  case Nil
  then show ?case by simp
next
  case (Cons kr d)
  obtain k v where kr: "kr = (k, v)" by (cases kr)
  show ?case
  proof (cases "k = n")
    case True
    with Cons.prems(1) kr have "v = r" by simp
    with True kr Cons.prems(2) show ?thesis by simp
  next
    case False
    with Cons.prems(1) kr have "dict_get d n = Some r" by simp
    then have "low_names (dict_set d n r') t = low_names d t"
      using Cons.prems(2) by (rule Cons.IH)
    with False kr show ?thesis by (simp cong: sum.case_cong)
  qed
qed

text \<open>
  C10: when the record stored for \<open>n\<close> is a dictionary with no quantity field,
  \<open>get_quantity n\<close> returns 0 and leaves the manager as it was, and
  \<open>check_low_items\<close> treats the record as one of quantity 0: its result is its result on
  the store where the record of \<open>n\<close> carries the quantity 0; any list that it returns
  holds \<open>n\<close> whenever the threshold is positive and, the keys of the store being distinct
  as those of a dictionary are, holds \<open>n\<close> only when the threshold is positive; and it
  does return a list when every record of the store is a dictionary whose quantity, if it
  has one, is a number.
\<close>

theorem missing_quantity_counts_as_zero:
  assumes "stock_data m = PDict d"
    and "dict_get d n = Some (PDict flds)"
    and "dict_get flds ''quantity'' = None"
  shows "get_quantity n m = (Inr (PInt 0), m) \<and>
         fst (check_low_items t m) =
           fst (check_low_items t
                  (m\<lparr>stock_data := PDict (dict_set d n (PDict (dict_set flds ''quantity'' (PInt 0))))\<rparr>)) \<and>
         (\<forall>names. fst (check_low_items t m) = Inr names \<longrightarrow>
            (0 < t \<longrightarrow> n \<in> set names) \<and>
            (distinct (map fst d) \<longrightarrow> (n \<in> set names \<longleftrightarrow> 0 < t))) \<and>
         ((\<forall>(k, r) \<in> set d. numeric_quantity r) \<longrightarrow> (\<exists>names. fst (check_low_items t m) = Inr names))"
proof -
  have g: "get_quantity n m = (Inr (PInt 0), m)"
    using assms by (simp add: get_quantity_def)
  have zero: "get_method (PDict flds) ''quantity'' (PInt 0) = Inr (PInt 0)"
    using assms(3) by simp
  have "get_method (PDict (dict_set flds ''quantity'' (PInt 0))) ''quantity'' (PInt 0) =
          get_method (PDict flds) ''quantity'' (PInt 0)"
    using assms(3) by (simp add: dict_get_set_same)
  with assms(2) have
    "low_names (dict_set d n (PDict (dict_set flds ''quantity'' (PInt 0)))) t = low_names d t"
    by (rule low_names_same_quantity)
  with assms(1) have e: "fst (check_low_items t m) =
           fst (check_low_items t
                  (m\<lparr>stock_data := PDict (dict_set d n (PDict (dict_set flds ''quantity'' (PInt 0))))\<rparr>))"
    by (simp add: check_low_items_def split: sum.splits)
  have c: "n \<in> set names" if "0 < t" and "fst (check_low_items t m) = Inr names" for names
  proof -
    from that(2) assms(1) have "low_names d t = Inr names"
      by (simp add: check_low_items_def split: sum.splits)
    moreover have "lt_int (PInt 0) t = Inr True"
      using that(1) by simp
    ultimately show ?thesis
      using assms(2) zero low_names_member [of d t names n "PDict flds" "PInt 0"] by blast
  qed
  have o: "0 < t"
    if "distinct (map fst d)" and "fst (check_low_items t m) = Inr names" and "n \<in> set names"
    for names
  proof -
    from that(2) assms(1) have "low_names d t = Inr names"
      by (simp add: check_low_items_def split: sum.splits)
    from low_names_member_low [OF this that(3)] obtain r q where
      r: "(n, r) \<in> set d" and q: "get_method r ''quantity'' (PInt 0) = Inr q"
      and lt: "lt_int q t = Inr True" by blast
    from dict_get_distinct [OF that(1) r] assms(2) have "r = PDict flds" by simp
    with q zero have "q = PInt 0" by simp
    with lt show ?thesis by simp
  qed
  have r: "\<exists>names. fst (check_low_items t m) = Inr names" if "\<forall>(k, r) \<in> set d. numeric_quantity r"
  proof -
    from low_names_returns [OF that, of t] obtain names where "low_names d t = Inr names" by blast
    with assms(1) show ?thesis by (simp add: check_low_items_def)
  qed
  from c o have
    "\<forall>names. fst (check_low_items t m) = Inr names \<longrightarrow>
       (0 < t \<longrightarrow> n \<in> set names) \<and> (distinct (map fst d) \<longrightarrow> (n \<in> set names \<longleftrightarrow> 0 < t))"
    by blast
  with g e r show ?thesis by blast
qed

theorem missing_quantity_counts_as_zero_witness:
  "distinct (map fst [(''Pen'', PDict [(''tags'', PList [])])]) \<and>
   get_quantity ''Pen'' no_quantity_store = (Inr (PInt 0), no_quantity_store) \<and>
   fst (check_low_items 1 no_quantity_store) = Inr [''Pen''] \<and>
   fst (check_low_items 0 no_quantity_store) = Inr [] \<and>
   fst (check_low_items 0
          (no_quantity_store\<lparr>stock_data :=
             PDict [(''Pen'', PDict [(''tags'', PList []), (''quantity'', PInt 0)])]\<rparr>)) = Inr []"
  using missing_quantity_counts_as_zero [of no_quantity_store
      "[(''Pen'', PDict [(''tags'', PList [])])]" "''Pen''" "[(''tags'', PList [])]" 1]
    missing_quantity_counts_as_zero [of no_quantity_store
      "[(''Pen'', PDict [(''tags'', PList [])])]" "''Pen''" "[(''tags'', PList [])]" 0]
  by (simp add: no_quantity_store_def check_low_items_def)

section \<open>\<open>load_data\<close> and \<open>save_data\<close>\<close>

lemma too_long_small: "\<bar>i\<bar> < 1000 \<Longrightarrow> 3 \<le> digits \<Longrightarrow> \<not> too_long digits i"
proof -
  assume a: "\<bar>i\<bar> < 1000" and d: "3 \<le> digits"
  have "(10::int) ^ 3 \<le> 10 ^ digits"
    using d by (intro power_increasing) simp_all
  with a show ?thesis by (simp add: too_long_def)
qed

lemma too_long_power: "0 < digits \<Longrightarrow> too_long digits (10 ^ digits)"
  by (simp add: too_long_def)

lemma long_integer_too_long: "too_long 4300 long_integer"
  unfolding long_integer_def by (rule too_long_power) simp

lemma long_integer_not_negative: "\<not> long_integer < 0"
  unfolding long_integer_def not_less by (rule zero_le_power) simp

lemma long_integer_store_value:
  "stock_data long_integer_store =
     PDict [(''Big'', PDict [(''quantity'', PInt long_integer), (''tags'', PList [])])]"
  by (simp add: long_integer_store_def add_item_def init_def emit_def Let_def
        long_integer_not_negative)

text \<open>
  What \<open>load_data\<close> does handle: a missing file, invalid JSON, a file that cannot be
  opened or read.
\<close>

lemma load_data_degrades:
  assumes "stock_data m = PDict d"
    and "content fs p = None \<or> content fs p = Some Malformed \<or>
         (content fs p = Some f \<and> p \<in> unreadable fs)"
  shows "fst (load_data p fs m) = Inr () \<and> stock_data (snd (load_data p fs m)) = PDict []"
  using assms by (auto simp: load_data_def clear_stock_def emit_def)

lemma load_data_replaces:
  assumes "content fs p = Some (Document v)"
    and "p \<notin> unreadable fs"
    and "codec_limit (max_str_digits fs) (decoder_depth fs) v = None"
  shows "fst (load_data p fs m) = Inr () \<and> stock_data (snd (load_data p fs m)) = v"
  using assms by (simp add: load_data_def emit_def)

text \<open>
  What neither \<open>load_data\<close> nor \<open>save_data\<close> handles: the exceptions of the codec
  that are not \<open>json.JSONDecodeError\<close>. A document that the decoder cannot get through
  raises out of \<open>load_data\<close>, and the store is not reset.
\<close>

lemma load_data_limit_raises:
  assumes "content fs p = Some (Document v)"
    and "p \<notin> unreadable fs"
    and "codec_limit (max_str_digits fs) (decoder_depth fs) v = Some e"
    and "e = ValueError \<or> e = RecursionError"
  shows "load_data p fs m = (Inl e, m)"
  using assms by (auto simp: load_data_def)

text \<open>
  A store that the encoder cannot get through raises out of \<open>save_data\<close>, and the file
  is left with the beginning of a document. After
  \<open>add_item("Big", None, 10 ** 4300)\<close>, \<open>save_data\<close> raises \<open>ValueError\<close>, and
  \<open>load_data\<close> of the file that it leaves gives the empty store.
\<close>

lemma save_data_limit_raises:
  assumes "write_fault fs p = None"
    and "codec_limit (max_str_digits fs) (encoder_depth fs) (stock_data m) = Some e"
  shows "fst (save_data p fs m) = (Inl e, m) \<and>
         content (snd (save_data p fs m)) p = Some Malformed"
  using assms by (simp add: save_data_def json_dump_def)

lemma save_data_long_integer_raises:
  "fst (save_data ''stock.json'' empty_disk long_integer_store) = (Inl ValueError, long_integer_store) \<and>
   content (snd (save_data ''stock.json'' empty_disk long_integer_store)) ''stock.json'' = Some Malformed \<and>
   stock_data (snd (load_data ''stock.json''
      (snd (save_data ''stock.json'' empty_disk long_integer_store)) init)) = PDict []"
proof -
  have "codec_limit (max_str_digits empty_disk) (encoder_depth empty_disk)
          (stock_data long_integer_store) = Some ValueError"
    by (simp add: empty_disk_def long_integer_store_value long_integer_too_long)
  moreover have "write_fault empty_disk ''stock.json'' = None"
    by (simp add: empty_disk_def)
  ultimately have s: "save_data ''stock.json'' empty_disk long_integer_store =
      ((Inl ValueError, long_integer_store),
       empty_disk\<lparr>content := (content empty_disk)(''stock.json'' \<mapsto> Malformed)\<rparr>)"
    by (simp add: save_data_def json_dump_def)
  show ?thesis
    unfolding s by (simp add: load_data_def clear_stock_def emit_def init_def empty_disk_def)
qed

text \<open>
  C5: \<open>load_data\<close> on a file whose bytes are not UTF-8. Reading it raises
  \<open>UnicodeDecodeError\<close>, which neither handler of \<open>load_data\<close> catches: the exception
  reaches the caller and the store is not reset.
\<close>

theorem load_data_undecodable_raises:
  "load_data ''stock.json'' undecodable_disk pen_notebook = (Inl UnicodeDecodeError, pen_notebook)"
  by (simp add: load_data_def undecodable_disk_def empty_disk_def)

text \<open>
  C1 as stated fails where the file cannot be written: \<open>save_data\<close> logs the error and
  returns, and \<open>load_data\<close> then finds no file and empties the store.
\<close>

theorem save_load_roundtrip_counterexample:
  "stock_data (snd (load_data ''stock.json'' (snd (save_data ''stock.json'' locked_disk pen_notebook)) init))
     \<noteq> stock_data pen_notebook"
  by (simp add: save_data_def load_data_def clear_stock_def emit_def locked_disk_def
        empty_disk_def init_def pen_notebook_store)

text \<open>
  C1, amended: for every path where writing does not fail and the file can be read, and
  every store that the JSON encoder and the JSON decoder can get through (no integer over
  the interpreter's digit limit, no nesting deeper than either can recurse),
  \<open>save_data\<close> returns normally and leaves the store as it was, and \<open>load_data\<close> of
  the same path, on a fresh manager or on any other, returns normally with a store equal
  to the saved one: the same keys in the same order, each with the same record, value for
  value.
\<close>

theorem save_then_load_roundtrip:
  assumes "write_fault fs p = None"
    and "p \<notin> unreadable fs"
    and "codec_limit (max_str_digits fs) (encoder_depth fs) (stock_data m) = None"
    and "codec_limit (max_str_digits fs) (decoder_depth fs) (stock_data m) = None"
  shows "fst (fst (save_data p fs m)) = Inr () \<and>
         stock_data (snd (fst (save_data p fs m))) = stock_data m \<and>
         fst (load_data p (snd (save_data p fs m)) m') = Inr () \<and>
         stock_data (snd (load_data p (snd (save_data p fs m)) m')) = stock_data m"
  using assms by (simp add: save_data_def json_dump_def load_data_def emit_def)

theorem save_then_load_roundtrip_witness:
  "write_fault empty_disk ''stock.json'' = None \<and>
   ''stock.json'' \<notin> unreadable empty_disk \<and>
   codec_limit (max_str_digits empty_disk) (encoder_depth empty_disk) (stock_data pen_notebook) = None \<and>
   codec_limit (max_str_digits empty_disk) (decoder_depth empty_disk) (stock_data pen_notebook) = None \<and>
   fst (fst (save_data ''stock.json'' empty_disk pen_notebook)) = Inr () \<and>
   fst (load_data ''stock.json'' (snd (save_data ''stock.json'' empty_disk pen_notebook)) init) = Inr () \<and>
   stock_data (snd (load_data ''stock.json'' (snd (save_data ''stock.json'' empty_disk pen_notebook)) init)) =
     PDict [(''Pen'', PDict [(''quantity'', PInt 15), (''tags'', PList [PStr ''stationery''])]),
            (''Notebook'', PDict [(''quantity'', PInt 7), (''tags'', PList [PStr ''stationery''])])]"
  using save_then_load_roundtrip [of empty_disk "''stock.json''" pen_notebook init]
  by (simp add: empty_disk_def pen_notebook_store too_long_small)

section \<open>The quantity invariant\<close>

lemma add_item_no_negative:
  "no_negative (stock_data m) \<Longrightarrow> no_negative (stock_data (snd (add_item n tags q m)))"
  by (cases "stock_data m")
     (auto simp: add_item_def emit_def Let_def intro!: list_all_dict_set)

lemma remove_item_no_negative:
  "no_negative (stock_data m) \<Longrightarrow> no_negative (stock_data (snd (remove_item n m)))"
proof (cases "stock_data m")
  case (PDict d)
  assume "no_negative (stock_data m)"
  with PDict show ?thesis
    by (cases "dict_get d n") (auto simp: remove_item_def emit_def intro!: list_all_dict_del)
qed (simp_all add: remove_item_def)

lemma clear_stock_no_negative:
  "no_negative (stock_data m) \<Longrightarrow> no_negative (stock_data (snd (clear_stock m)))"
  by (cases "stock_data m") (simp_all add: clear_stock_def)

lemma load_data_no_negative:
  assumes "no_negative (stock_data m)"
    and "\<forall>p v. content fs p = Some (Document v) \<longrightarrow> no_negative v"
  shows "no_negative (stock_data (snd (load_data p fs m)))"
proof (cases "content fs p")
  case None
  with assms(1) show ?thesis
    by (simp add: load_data_def clear_stock_no_negative emit_def)
next
  case (Some f)
  show ?thesis
  proof (cases "p \<in> unreadable fs")
    case True
    with Some assms(1) show ?thesis
      by (simp add: load_data_def clear_stock_no_negative emit_def)
  next
    case False
    show ?thesis
    proof (cases "json_load fs f")
      case (Inl e)
      with Some False assms(1) show ?thesis
        by (cases e) (simp_all add: load_data_def clear_stock_no_negative emit_def)
    next
      case (Inr v)
      then have "f = Document v"
        by (cases f) (simp_all split: option.splits)
      with Some assms(2) have "no_negative v" by simp
      with Some False Inr show ?thesis
        by (simp add: load_data_def emit_def)
    qed
  qed
qed

lemma print_items_store: "stock_data (snd (print_items its m)) = stock_data m"
  by (induction its m rule: print_items.induct) (simp_all add: emit_def split: sum.splits)

lemma print_data_store: "stock_data (snd (print_data m)) = stock_data m"
  by (simp add: print_data_def print_items_store emit_def split: sum.splits)

lemma save_data_store: "stock_data (snd (fst (save_data p fs m))) = stock_data m"
  by (simp add: save_data_def emit_def split: option.splits fault.splits sum.splits)

lemma save_data_disk:
  assumes "no_negative (stock_data m)"
    and "\<forall>p v. content fs p = Some (Document v) \<longrightarrow> no_negative v"
  shows "\<forall>p' v. content (snd (save_data p fs m)) p' = Some (Document v) \<longrightarrow> no_negative v"
  using assms
  by (auto simp: save_data_def json_dump_def split: option.splits fault.splits sum.splits)

lemma step_no_negative:
  assumes "no_negative (stock_data (mgr s))"
    and "\<forall>p v. content (disk s) p = Some (Document v) \<longrightarrow> no_negative v"
  shows "no_negative (stock_data (mgr (step c s))) \<and>
         (\<forall>p v. content (disk (step c s)) p = Some (Document v) \<longrightarrow> no_negative v)"
proof (cases c)
  case (Add n tags q)
  with assms show ?thesis by (simp add: add_item_no_negative)
next
  case (Remove n)
  with assms show ?thesis by (simp add: remove_item_no_negative)
next
  case (Load p)
  with assms show ?thesis by (simp add: load_data_no_negative)
next
  case (Save p)
  with assms save_data_disk [OF assms, of p] show ?thesis by (simp add: save_data_store)
next
  case (CheckLow t)
  with assms show ?thesis by (simp add: check_low_items_store)
next
  case Report
  with assms show ?thesis by (simp add: print_data_store)
qed

lemma exec_no_negative:
  "no_negative (stock_data (mgr s)) \<Longrightarrow>
   \<forall>p v. content (disk s) p = Some (Document v) \<longrightarrow> no_negative v \<Longrightarrow>
   no_negative (stock_data (mgr (exec ops s)))"
proof (induction ops arbitrary: s)
  case Nil
  then show ?case by (simp add: exec_def)
next
  case (Cons c ops)
  from step_no_negative [OF Cons.prems, of c] Cons.IH [of "step c s"]
  show ?case by (simp add: exec_def)
qed

text \<open>
  C2 as stated fails at \<open>load_data\<close>, which takes the quantities of the file as they are:
  a file with a negative quantity puts it into the store.
\<close>

theorem quantity_invariant_counterexample:
  "\<not> no_negative (stock_data (mgr (exec [Load ''stock.json''] \<lparr>mgr = init, disk = negative_disk\<rparr>)))"
  by (simp add: exec_def load_data_def emit_def negative_disk_def empty_disk_def init_def
        too_long_small)

text \<open>
  C2, amended: when no record of the store has a negative quantity, and no file holds a
  document with one, then after any sequence of \<open>add_item\<close>, \<open>remove_item\<close>,
  \<open>load_data\<close>, \<open>save_data\<close>, \<open>check_low_items\<close> and \<open>print_data\<close> calls no record
  of the store has a negative quantity.
\<close>

theorem quantity_invariant:
  assumes "no_negative (stock_data (mgr s))"
    and "\<forall>p v. content (disk s) p = Some (Document v) \<longrightarrow> no_negative v"
  shows "no_negative (stock_data (mgr (exec ops s)))"
  using assms by (rule exec_no_negative)

theorem quantity_invariant_witness:
  "no_negative (stock_data (mgr start)) \<and>
   content (disk start) = Map.empty \<and>
   no_negative (stock_data (mgr (exec main_ops start)))"
  using quantity_invariant [of start main_ops]
  by (simp add: start_def init_def empty_disk_def)

end
